theory Spec2Isabelle
  imports Complex_Main
begin

section \<open>Values, events and the objects of the SDK\<close>

text \<open>
  The configuration type of the source is \<^verbatim>\<open>{ [key: string]: any }\<close> and the payload of
  a dashboard event is \<^verbatim>\<open>any\<close>, so both are JavaScript values. Numbers are reals: the
  rounding of IEEE doubles is not modelled. \<open>JNumberToString n\<close> stands for the string that
  \<^verbatim>\<open>n.toString()\<close> returns; its characters are not modelled.
\<close>

datatype jsval =
    JUndefined
  | JNull
  | JBool bool
  | JNumber real
  | JString string
  | JNumberToString real
  | JArray "jsval list"
  | JObject "(string \<times> jsval) list"

text \<open>\<^verbatim>\<open>KeyableSchemaItem | ButtonSchemaItem\<close>: of a field the SDK reads the key only.\<close>

datatype KeyableSchemaItem = KeyableSchemaItem (key: string)

text \<open>\<^verbatim>\<open>interface DashboardEvent\<close>; a \<^verbatim>\<open>null\<close> field is \<open>None\<close>.\<close>

datatype DashboardEvent =
  DashboardEvent (event: string) (field: "KeyableSchemaItem option") (payload: jsval)

text \<open>
  What a function supplied by the application is called with: an event (a handler given
  to \<^verbatim>\<open>pushHandler\<close>), a configuration (a config watcher) or nothing (a handler given
  to \<^verbatim>\<open>on\<close>).
\<close>

datatype arg = NoArgs | EventArg DashboardEvent | ConfigArg jsval

text \<open>
  What such a function can read of the session while it runs: \<^verbatim>\<open>getConfig()\<close>, and the
  fields \<^verbatim>\<open>editMode\<close> and \<^verbatim>\<open>template\<close>.
\<close>

record snapshot =
  seen_config :: jsval
  seen_editMode :: bool
  seen_template :: string

text \<open>
  The functions held by the event bus and by the session are closures. They are modelled
  by what they are:
  \<^item> \<open>StateUpdater\<close> is the arrow function the constructor of \<^verbatim>\<open>ConfigSDK\<close> pushes;
  \<^item> \<open>OnClosure e k f\<close> is the arrow function that \<^verbatim>\<open>on(e, k, f)\<close> pushes;
  \<^item> \<open>UserHandler f\<close> is a function of the application pushed as it is.

  A function of the application, \<open>Fn l b\<close>, has a label \<open>l\<close> that tells it from the others
  and a body \<open>b\<close>. The body chooses, from its argument and from what it reads of the
  session, the calls it makes to the session, in order: \<open>PushHandler f\<close> is
  \<^verbatim>\<open>sdk.eventBus.pushHandler(f)\<close>, the other commands are the methods of \<^verbatim>\<open>ConfigSDK\<close> of
  the same names. Such a function uses the session through these calls only (it assigns
  to no field of the session and does not call \<^verbatim>\<open>trigger\<close> itself), and it returns
  normally: the bus has no error isolation, and what happens when a handler throws is
  left open by the specification.
\<close>

datatype handler =
    StateUpdater
  | OnClosure string string fn
  | UserHandler fn
and fn = Fn (label: nat) (body: "arg \<Rightarrow> snapshot \<Rightarrow> cmd list")
and cmd =
    PushHandler fn
  | On string string fn
  | OnConfigUpdate fn
  | SetHeight real
  | SetConfig jsval
  | SetSchema jsval
  | SetSavable bool
  | SetExternalId string
  | Save

text \<open>\<^verbatim>\<open>class EventBus\<close>.\<close>

record EventBus =
  handlers :: "handler list"

text \<open>
  \<^verbatim>\<open>ModelledChildApi\<close>: the model the dashboard gave at the handshake, and the messages
  sent to the dashboard so far with \<^verbatim>\<open>emit\<close>, oldest first. \<open>handshake_savable\<close> is the flag
  \<^verbatim>\<open>createSDK\<close> hands to Postmate.
\<close>

record Model =
  model_config :: "jsval option"
  model_editMode :: bool
  code :: string

record ChildAPI =
  model :: Model
  handshake_savable :: bool
  emitted :: "(string \<times> jsval) list"

text \<open>\<^verbatim>\<open>class ConfigSDK\<close>.\<close>

record ConfigSDK =
  parent :: ChildAPI
  eventBus :: EventBus
  config :: jsval
  configWatchers :: "fn list"
  editMode :: bool
  template :: string

text \<open>
  The browser around the session. The global \<^verbatim>\<open>document\<close> may be undeclared (reading it
  throws a ReferenceError), declared but null or undefined, or a document whose body is
  null or has a bounding rectangle.
\<close>

record DOMRect =
  rect_y :: real
  rect_height :: real

datatype document_binding =
    Undeclared
  | Falsy
  | Document (doc_body: "DOMRect option")

text \<open>
  A \<^verbatim>\<open>ResizeObserver\<close> made by \<^verbatim>\<open>enableAutoResize\<close>: which of the two revisions of the
  source made its callback, and whether it still observes the body.
\<close>

datatype resize_callback = AutoResize | AutoResize_index

record ResizeObserver =
  callback :: resize_callback
  observing :: bool

text \<open>
  A history of the calls made to handlers, kept to state the claims; no operation reads
  it. Each entry has the value \<^verbatim>\<open>getConfig()\<close> returns at the moment of the call.
  \<^item> \<open>HandlerCall h e c\<close>: \<^verbatim>\<open>trigger\<close> called \<open>h(e)\<close>;
  \<^item> \<open>WatcherCall f v c\<close>: the state updater called the watcher \<open>f(v)\<close>;
  \<^item> \<open>CallbackCall f c\<close>: a closure of \<^verbatim>\<open>on\<close> called \<open>f()\<close>.
\<close>

datatype invocation =
    HandlerCall handler DashboardEvent jsval
  | WatcherCall fn jsval jsval
  | CallbackCall fn jsval

record world =
  sdk :: ConfigSDK
  document :: document_binding
  observers :: "ResizeObserver list"
  trace :: "invocation list"

datatype error = Error string | ReferenceError string | TypeError string

section \<open>The event bus\<close>

definition EventBus_new :: EventBus where
  "EventBus_new = \<lparr>handlers = []\<rparr>"

definition pushHandler :: "handler \<Rightarrow> EventBus \<Rightarrow> EventBus" where
  "pushHandler h bus = bus\<lparr>handlers := handlers bus @ [h]\<rparr>"

text \<open>
  \<^verbatim>\<open>Array.prototype.forEach\<close>: the length is read once, before the first call; then, for
  each index below it in ascending order, the element that is at this index at that
  moment is passed to the callback, if the index is still present. The callback may
  change the array, which is why the array is read from the state at every step.
\<close>

primrec forEach_from :: "('w \<Rightarrow> 'a list) \<Rightarrow> ('a \<Rightarrow> 'w \<Rightarrow> 'w) \<Rightarrow> nat \<Rightarrow> nat \<Rightarrow> 'w \<Rightarrow> 'w" where
  "forEach_from arr cb k 0 w = w"
| "forEach_from arr cb k (Suc n) w =
     forEach_from arr cb (Suc k) n (if k < length (arr w) then cb (arr w ! k) w else w)"

definition forEach :: "('w \<Rightarrow> 'a list) \<Rightarrow> ('a \<Rightarrow> 'w \<Rightarrow> 'w) \<Rightarrow> 'w \<Rightarrow> 'w" where
  "forEach arr cb w = forEach_from arr cb 0 (length (arr w)) w"

section \<open>The operations of the session that call no handler\<close>

definition emit :: "string \<Rightarrow> jsval \<Rightarrow> ChildAPI \<Rightarrow> ChildAPI" where
  "emit name data api = api\<lparr>emitted := emitted api @ [(name, data)]\<rparr>"

definition getConfig :: "ConfigSDK \<Rightarrow> jsval" where
  "getConfig s = config s"

definition on :: "string \<Rightarrow> string \<Rightarrow> fn \<Rightarrow> ConfigSDK \<Rightarrow> ConfigSDK" where
  "on e k f s = s\<lparr>eventBus := pushHandler (OnClosure e k f) (eventBus s)\<rparr>"

definition onConfigUpdate :: "fn \<Rightarrow> ConfigSDK \<Rightarrow> ConfigSDK" where
  "onConfigUpdate f s = s\<lparr>configWatchers := configWatchers s @ [f]\<rparr>"

definition setHeight :: "real \<Rightarrow> ConfigSDK \<Rightarrow> ConfigSDK" where
  "setHeight h s = s\<lparr>parent := emit ''set-height'' (JNumberToString h) (parent s)\<rparr>"

definition setConfig :: "jsval \<Rightarrow> ConfigSDK \<Rightarrow> ConfigSDK" where
  "setConfig c s = s\<lparr>parent := emit ''update-config'' c (parent s)\<rparr>"

text \<open>\<^verbatim>\<open>emit('save')\<close> passes no data: the payload is \<^verbatim>\<open>undefined\<close>.\<close>

definition save :: "ConfigSDK \<Rightarrow> ConfigSDK" where
  "save s = (if \<not> editMode s then s else s\<lparr>parent := emit ''save'' JUndefined (parent s)\<rparr>)"

definition setExternalId :: "string \<Rightarrow> ConfigSDK \<Rightarrow> ConfigSDK" where
  "setExternalId i s = s\<lparr>parent := emit ''set-external-id'' (JString i) (parent s)\<rparr>"

definition setSchema :: "jsval \<Rightarrow> ConfigSDK \<Rightarrow> ConfigSDK" where
  "setSchema sch s = s\<lparr>parent := emit ''set-schema'' sch (parent s)\<rparr>"

definition setSavable :: "bool \<Rightarrow> ConfigSDK \<Rightarrow> ConfigSDK" where
  "setSavable b s = s\<lparr>parent := emit ''set-savable'' (JBool b) (parent s)\<rparr>"

text \<open>\<^verbatim>\<open>setConfig\<close> of the earlier revision, \<^verbatim>\<open>src/index.ts\<close>: the message is named \<^verbatim>\<open>save\<close>.\<close>

definition setConfig_index :: "jsval \<Rightarrow> ConfigSDK \<Rightarrow> ConfigSDK" where
  "setConfig_index c s = s\<lparr>parent := emit ''save'' c (parent s)\<rparr>"

section \<open>Calling the functions of the application\<close>

primrec run_cmd :: "cmd \<Rightarrow> ConfigSDK \<Rightarrow> ConfigSDK" where
  "run_cmd (PushHandler f) s = s\<lparr>eventBus := pushHandler (UserHandler f) (eventBus s)\<rparr>"
| "run_cmd (On e k f) s = on e k f s"
| "run_cmd (OnConfigUpdate f) s = onConfigUpdate f s"
| "run_cmd (SetHeight h) s = setHeight h s"
| "run_cmd (SetConfig c) s = setConfig c s"
| "run_cmd (SetSchema sch) s = setSchema sch s"
| "run_cmd (SetSavable b) s = setSavable b s"
| "run_cmd (SetExternalId i) s = setExternalId i s"
| "run_cmd Save s = save s"

definition snapshot_of :: "ConfigSDK \<Rightarrow> snapshot" where
  "snapshot_of s =
     \<lparr>seen_config = getConfig s, seen_editMode = editMode s, seen_template = template s\<rparr>"

definition call_fn :: "fn \<Rightarrow> arg \<Rightarrow> world \<Rightarrow> world" where
  "call_fn f a w = w\<lparr>sdk := fold run_cmd (body f a (snapshot_of (sdk w))) (sdk w)\<rparr>"

definition record_call :: "invocation \<Rightarrow> world \<Rightarrow> world" where
  "record_call i w = w\<lparr>trace := trace w @ [i]\<rparr>"

section \<open>The handlers of the session and the dispatch of an event\<close>

definition call_watcher :: "fn \<Rightarrow> world \<Rightarrow> world" where
  "call_watcher f w =
     call_fn f (ConfigArg (config (sdk w)))
       (record_call (WatcherCall f (config (sdk w)) (getConfig (sdk w))) w)"

text \<open>The arrow function pushed by the constructor.\<close>

definition state_updater :: "DashboardEvent \<Rightarrow> world \<Rightarrow> world" where
  "state_updater e w =
     (if event e \<noteq> ''set-config'' then w
      else forEach (\<lambda>w. configWatchers (sdk w)) call_watcher
             (w\<lparr>sdk := (sdk w)\<lparr>config := payload e\<rparr>\<rparr>))"

text \<open>The arrow function pushed by \<^verbatim>\<open>on(e, k, f)\<close>.\<close>

definition on_closure :: "string \<Rightarrow> string \<Rightarrow> fn \<Rightarrow> DashboardEvent \<Rightarrow> world \<Rightarrow> world" where
  "on_closure e k f candidateEvent w =
     (if event candidateEvent = e
      then (case field candidateEvent of
              None \<Rightarrow> w
            | Some fld \<Rightarrow>
                if key fld = k
                then call_fn f NoArgs (record_call (CallbackCall f (getConfig (sdk w))) w)
                else w)
      else w)"

primrec apply_handler :: "handler \<Rightarrow> DashboardEvent \<Rightarrow> world \<Rightarrow> world" where
  "apply_handler StateUpdater e w = state_updater e w"
| "apply_handler (OnClosure ev k f) e w = on_closure ev k f e w"
| "apply_handler (UserHandler f) e w = call_fn f (EventArg e) w"

definition call_handler :: "DashboardEvent \<Rightarrow> handler \<Rightarrow> world \<Rightarrow> world" where
  "call_handler e h w = apply_handler h e (record_call (HandlerCall h e (getConfig (sdk w))) w)"

definition trigger :: "DashboardEvent \<Rightarrow> world \<Rightarrow> world" where
  "trigger e w = forEach (\<lambda>w. handlers (eventBus (sdk w))) (call_handler e) w"

section \<open>Construction\<close>

text \<open>What \<^verbatim>\<open>||\<close> and \<^verbatim>\<open>Boolean\<close> take for true.\<close>

fun truthy :: "jsval \<Rightarrow> bool" where
  "truthy JUndefined = False"
| "truthy JNull = False"
| "truthy (JBool b) = b"
| "truthy (JNumber n) = (n \<noteq> 0)"
| "truthy (JString s) = (s \<noteq> [])"
| "truthy (JNumberToString n) = True"
| "truthy (JArray vs) = True"
| "truthy (JObject kvs) = True"

text \<open>
  The constructor of \<^verbatim>\<open>ConfigSDK\<close>. \<^verbatim>\<open>childApi.model.config || {}\<close>: an absent
  configuration, or one that is not truthy, is the empty object. \<^verbatim>\<open>model.editMode\<close> is
  declared a boolean, on which \<^verbatim>\<open>Boolean\<close> is the identity.
\<close>

definition ConfigSDK_new :: "ChildAPI \<Rightarrow> EventBus \<Rightarrow> ConfigSDK" where
  "ConfigSDK_new childApi bus =
     \<lparr>parent = childApi,
      eventBus = pushHandler StateUpdater bus,
      config = (case model_config (model childApi) of
                  None \<Rightarrow> JObject []
                | Some c \<Rightarrow> if truthy c then c else JObject []),
      configWatchers = [],
      editMode = model_editMode (model childApi),
      template = code (model childApi)\<rparr>"

text \<open>
  \<^verbatim>\<open>createSDK\<close>, once the handshake has resolved with the model \<open>m\<close>, in a browser whose
  \<^verbatim>\<open>document\<close> is \<open>d\<close>. The relay function \<^verbatim>\<open>event\<close> given to Postmate is \<open>trigger\<close>.
\<close>

definition createSDK :: "bool \<Rightarrow> Model \<Rightarrow> document_binding \<Rightarrow> world" where
  "createSDK savable m d =
     \<lparr>sdk = ConfigSDK_new \<lparr>model = m, handshake_savable = savable, emitted = []\<rparr> EventBus_new,
      document = d,
      observers = [],
      trace = []\<rparr>"

section \<open>Automatic resizing\<close>

text \<open>
  \<^verbatim>\<open>calculateHeight\<close> reads \<^verbatim>\<open>document.body.getBoundingClientRect()\<close> when it is called.
  Where there is no body, reading it throws.
\<close>

definition calculateHeight :: "world \<Rightarrow> error + real" where
  "calculateHeight w =
     (case document w of
        Undeclared \<Rightarrow> Inl (ReferenceError ''document is not defined'')
      | Falsy \<Rightarrow> Inl (TypeError ''document has no body'')
      | Document None \<Rightarrow> Inl (TypeError ''body has no getBoundingClientRect'')
      | Document (Some rect) \<Rightarrow> Inr ((2 * rect_y rect) + rect_height rect))"

text \<open>\<^verbatim>\<open>calculateHeight\<close> of the earlier revision, \<^verbatim>\<open>src/index.ts\<close>.\<close>

definition calculateHeight_index :: "world \<Rightarrow> error + real" where
  "calculateHeight_index w =
     (case document w of
        Undeclared \<Rightarrow> Inl (ReferenceError ''document is not defined'')
      | Falsy \<Rightarrow> Inl (TypeError ''document has no body'')
      | Document None \<Rightarrow> Inl (TypeError ''body has no getBoundingClientRect'')
      | Document (Some rect) \<Rightarrow> Inr (rect_y rect + rect_height rect))"

text \<open>
  The function \<^verbatim>\<open>enableAutoResize\<close> returns: it disconnects the observer that the call
  made, which is known by its position among the observers of the page.
\<close>

datatype teardown = Disconnect nat

definition auto_resize_message :: string where
  "auto_resize_message = ''Auto-resize can only be enabled when a document (and body) is present''"

text \<open>
  The callback given to \<^verbatim>\<open>new ResizeObserver\<close>. An error thrown in it reaches no code of
  the session: nothing is sent.
\<close>

definition on_resize :: "resize_callback \<Rightarrow> world \<Rightarrow> world" where
  "on_resize cb w =
     (case (case cb of AutoResize \<Rightarrow> calculateHeight w | AutoResize_index \<Rightarrow> calculateHeight_index w) of
        Inl err \<Rightarrow> w
      | Inr h \<Rightarrow> w\<lparr>sdk := setHeight h (sdk w)\<rparr>)"

text \<open>
  \<^verbatim>\<open>enableAutoResize\<close> returns, with the new state, either the error it throws or the
  function that stops the observation.
\<close>

definition enableAutoResize :: "world \<Rightarrow> (error + teardown) \<times> world" where
  "enableAutoResize w =
     (case document w of
        Undeclared \<Rightarrow> (Inl (ReferenceError ''document is not defined''), w)
      | Falsy \<Rightarrow> (Inl (Error auto_resize_message), w)
      | Document None \<Rightarrow> (Inl (Error auto_resize_message), w)
      | Document (Some rect) \<Rightarrow>
          (let observer = \<lparr>callback = AutoResize, observing = True\<rparr>;
               w1 = w\<lparr>observers := observers w @ [observer]\<rparr>
           in case calculateHeight w1 of
                Inl err \<Rightarrow> (Inl err, w1)
              | Inr h \<Rightarrow> (Inr (Disconnect (length (observers w))), w1\<lparr>sdk := setHeight h (sdk w1)\<rparr>)))"

text \<open>\<^verbatim>\<open>enableAutoResize\<close> of the earlier revision, \<^verbatim>\<open>src/index.ts\<close>.\<close>

definition enableAutoResize_index :: "world \<Rightarrow> (error + teardown) \<times> world" where
  "enableAutoResize_index w =
     (case document w of
        Undeclared \<Rightarrow> (Inl (ReferenceError ''document is not defined''), w)
      | Falsy \<Rightarrow> (Inl (Error auto_resize_message), w)
      | Document None \<Rightarrow> (Inl (Error auto_resize_message), w)
      | Document (Some rect) \<Rightarrow>
          (let observer = \<lparr>callback = AutoResize_index, observing = True\<rparr>;
               w1 = w\<lparr>observers := observers w @ [observer]\<rparr>
           in case calculateHeight_index w1 of
                Inl err \<Rightarrow> (Inl err, w1)
              | Inr h \<Rightarrow> (Inr (Disconnect (length (observers w))), w1\<lparr>sdk := setHeight h (sdk w1)\<rparr>)))"

definition run_teardown :: "teardown \<Rightarrow> world \<Rightarrow> world" where
  "run_teardown t w =
     (case t of Disconnect i \<Rightarrow>
        if i < length (observers w)
        then w\<lparr>observers := (observers w)[i := (observers w ! i)\<lparr>observing := False\<rparr>]\<rparr>
        else w)"

text \<open>
  The browser, when the box of the body becomes \<open>rect\<close>: it calls the callback of every
  observer that still observes the body, oldest first.
\<close>

definition notify :: "ResizeObserver \<Rightarrow> world \<Rightarrow> world" where
  "notify ob w = (if observing ob then on_resize (callback ob) w else w)"

definition body_resized :: "DOMRect \<Rightarrow> world \<Rightarrow> world" where
  "body_resized rect w =
     (case document w of
        Document (Some old) \<Rightarrow> fold notify (observers w) (w\<lparr>document := Document (Some rect)\<rparr>)
      | _ \<Rightarrow> w)"

section \<open>The life of a session\<close>

text \<open>
  What can happen to a session after \<^verbatim>\<open>createSDK\<close>: the application calls an operation,
  the dashboard relays an event, the body changes its box, a teardown function is called.
\<close>

datatype step =
    Api cmd
  | Relay DashboardEvent
  | EnableAutoResize
  | EnableAutoResize_index
  | SetConfig_index jsval
  | BodyResized DOMRect
  | Teardown teardown

primrec exec :: "step \<Rightarrow> world \<Rightarrow> world" where
  "exec (Api c) w = w\<lparr>sdk := run_cmd c (sdk w)\<rparr>"
| "exec (Relay e) w = trigger e w"
| "exec EnableAutoResize w = snd (enableAutoResize w)"
| "exec EnableAutoResize_index w = snd (enableAutoResize_index w)"
| "exec (SetConfig_index c) w = w\<lparr>sdk := setConfig_index c (sdk w)\<rparr>"
| "exec (BodyResized rect) w = body_resized rect w"
| "exec (Teardown t) w = run_teardown t w"

definition run :: "step list \<Rightarrow> world \<Rightarrow> world" where
  "run steps w = fold exec steps w"

text \<open>The calls the bus made to its handlers, and the calls made to config watchers.\<close>

fun handler_calls :: "invocation list \<Rightarrow> (handler \<times> DashboardEvent) list" where
  "handler_calls [] = []"
| "handler_calls (HandlerCall h e c # tr) = (h, e) # handler_calls tr"
| "handler_calls (i # tr) = handler_calls tr"


fun callback_calls :: "invocation list \<Rightarrow> fn list" where
  "callback_calls [] = []"
| "callback_calls (CallbackCall f c # tr) = f # callback_calls tr"
| "callback_calls (i # tr) = callback_calls tr"


section \<open>Definitions used to state and prove the properties\<close>

text \<open>
  \<open>extends s s'\<close>: from \<open>s\<close> to \<open>s'\<close> the lists of handlers, of watchers and of sent
  messages only grew at their ends, no state updater was added, and the fields set at
  construction are the same.
\<close>

definition extends :: "ConfigSDK \<Rightarrow> ConfigSDK \<Rightarrow> bool" where
  "extends s s' \<longleftrightarrow>
     (\<exists>hs. handlers (eventBus s') = handlers (eventBus s) @ hs \<and> StateUpdater \<notin> set hs) \<and>
     (\<exists>fs. configWatchers s' = configWatchers s @ fs) \<and>
     (\<exists>ms. emitted (parent s') = emitted (parent s) @ ms) \<and>
     model (parent s') = model (parent s) \<and>
     editMode s' = editMode s \<and>
     template s' = template s"

definition on_matches :: "string \<Rightarrow> string \<Rightarrow> DashboardEvent \<Rightarrow> bool" where
  "on_matches e k candidateEvent \<longleftrightarrow>
     event candidateEvent = e \<and> field candidateEvent \<noteq> None \<and> key (the (field candidateEvent)) = k"

primrec effect_trace :: "handler \<Rightarrow> DashboardEvent \<Rightarrow> ConfigSDK \<Rightarrow> invocation list" where
  "effect_trace StateUpdater e s =
     (if event e = ''set-config''
      then map (\<lambda>f. WatcherCall f (payload e) (payload e)) (configWatchers s)
      else [])"
| "effect_trace (OnClosure ev k f) e s =
     (if on_matches ev k e then [CallbackCall f (config s)] else [])"
| "effect_trace (UserHandler f) e s = []"

primrec fired :: "DashboardEvent \<Rightarrow> handler \<Rightarrow> fn list" where
  "fired e StateUpdater = []"
| "fired e (OnClosure ev k f) = (if on_matches ev k e then [f] else [])"
| "fired e (UserHandler f) = []"


primrec pushed_by :: "cmd \<Rightarrow> handler list" where
  "pushed_by (PushHandler g) = [UserHandler g]"
| "pushed_by (On ev k g) = [OnClosure ev k g]"
| "pushed_by (OnConfigUpdate g) = []"
| "pushed_by (SetHeight h) = []"
| "pushed_by (SetConfig c) = []"
| "pushed_by (SetSchema sch) = []"
| "pushed_by (SetSavable b) = []"
| "pushed_by (SetExternalId i) = []"
| "pushed_by Save = []"

definition reported_height :: "resize_callback \<Rightarrow> DOMRect \<Rightarrow> real" where
  "reported_height cb rect =
     (case cb of
        AutoResize \<Rightarrow> 2 * rect_y rect + rect_height rect
      | AutoResize_index \<Rightarrow> rect_y rect + rect_height rect)"

section \<open>Example sessions and events\<close>

definition cfg_a1 :: jsval where
  "cfg_a1 = JObject [(''a'', JNumber 1)]"

definition cfg_a1_b2 :: jsval where
  "cfg_a1_b2 = JObject [(''a'', JNumber 1), (''b'', JNumber 2)]"

definition model_a1_b2 :: Model where
  "model_a1_b2 = \<lparr>model_config = Some cfg_a1_b2, model_editMode = True, code = ''tpl''\<rparr>"

definition idle :: "nat \<Rightarrow> fn" where
  "idle l = Fn l (\<lambda>a v. [])"


definition set_config_a1 :: DashboardEvent where
  "set_config_a1 = DashboardEvent ''set-config'' None cfg_a1"

definition click_my_button :: DashboardEvent where
  "click_my_button = DashboardEvent ''click'' (Some (KeyableSchemaItem ''my_button'')) JNull"

definition bus_of :: "handler list \<Rightarrow> world" where
  "bus_of hs =
     \<lparr>sdk = (sdk (createSDK True model_a1_b2 Falsy))\<lparr>eventBus := fold pushHandler hs EventBus_new\<rparr>,
      document = Falsy, observers = [], trace = []\<rparr>"

definition registers :: "nat \<Rightarrow> fn \<Rightarrow> fn" where
  "registers l g = Fn l (\<lambda>a v. [PushHandler g])"

definition clicks_session :: world where
  "clicks_session = run [Api (On ''click'' ''my_button'' (idle 7))] (createSDK True model_a1_b2 Falsy)"

definition click_other :: DashboardEvent where
  "click_other = DashboardEvent ''click'' (Some (KeyableSchemaItem ''other'')) JNull"

definition other_my_button :: DashboardEvent where
  "other_my_button = DashboardEvent ''other'' (Some (KeyableSchemaItem ''my_button'')) JNull"

definition click_null :: DashboardEvent where
  "click_null = DashboardEvent ''click'' None JNull"

definition viewing :: ConfigSDK where
  "viewing = sdk (createSDK True \<lparr>model_config = None, model_editMode = False, code = ''tpl''\<rparr> Falsy)"

definition editing :: ConfigSDK where
  "editing = sdk (createSDK True model_a1_b2 Falsy)"

definition page :: world where
  "page = createSDK True model_a1_b2 (Document (Some \<lparr>rect_y = 8, rect_height = 100\<rparr>))"

definition no_document :: world where
  "no_document = createSDK True model_a1_b2 Undeclared"

definition null_document :: world where
  "null_document = createSDK True model_a1_b2 Falsy"

definition no_body :: world where
  "no_body = createSDK True model_a1_b2 (Document None)"



definition busy_steps :: "step list" where
  "busy_steps =
     [Api (On ''click'' ''my_button'' (Fn 9 (\<lambda>a v. [Save, SetSavable True]))),
      Api (SetConfig cfg_a1), Relay click_my_button, Relay set_config_a1, EnableAutoResize,
      BodyResized \<lparr>rect_y = 10, rect_height = 300\<rparr>, Teardown (Disconnect 0), Api Save]"

section \<open>Lemmas: iteration, growth of the lists, the dispatch\<close>

subsection \<open>Iteration over a list that only grows\<close>


lemma truthy_cfg_a1_b2 [simp]: "truthy cfg_a1_b2"
  by (simp add: cfg_a1_b2_def)

lemma forEach_from_fold:
  assumes grow: "\<And>x w. \<exists>ex. arr (cb x w) = arr w @ ex"
  shows "k + n \<le> length (arr w) \<Longrightarrow> forEach_from arr cb k n w = fold cb (take n (drop k (arr w))) w"
proof (induction n arbitrary: k w)
  case 0
  then show ?case by simp
next
  case (Suc n)
  let ?x = "arr w ! k"
  let ?w1 = "cb ?x w"
  from Suc.prems have k: "k < length (arr w)" by simp
  obtain ex where ex: "arr ?w1 = arr w @ ex" using grow by blast
  have len: "Suc k + n \<le> length (arr ?w1)" using Suc.prems ex by simp
  have same: "take n (drop (Suc k) (arr ?w1)) = take n (drop (Suc k) (arr w))"
    using Suc.prems ex by simp
  have unfold: "take (Suc n) (drop k (arr w)) = ?x # take n (drop (Suc k) (arr w))"
    using k by (simp add: Cons_nth_drop_Suc [symmetric])
  have "forEach_from arr cb k (Suc n) w = forEach_from arr cb (Suc k) n ?w1"
    using k by simp
  also have "\<dots> = fold cb (take n (drop (Suc k) (arr ?w1))) ?w1"
    using Suc.IH [OF len] .
  also have "\<dots> = fold cb (take (Suc n) (drop k (arr w))) w"
    by (simp add: same unfold)
  finally show ?case .
qed

lemma forEach_fold:
  assumes "\<And>x w. \<exists>ex. arr (cb x w) = arr w @ ex"
  shows "forEach arr cb w = fold cb (arr w) w"
  using forEach_from_fold [of arr cb 0 "length (arr w)" w, OF assms]
  by (simp add: forEach_def)

subsection \<open>The calls a function of the application makes\<close>

lemma extends_refl: "extends s s"
  by (simp add: extends_def)

lemma extends_trans:
  assumes "extends s s'" and "extends s' s''"
  shows "extends s s''"
proof -
  from assms(1) obtain hs fs ms where
    1: "handlers (eventBus s') = handlers (eventBus s) @ hs" "StateUpdater \<notin> set hs"
       "configWatchers s' = configWatchers s @ fs" "emitted (parent s') = emitted (parent s) @ ms"
       "model (parent s') = model (parent s)" "editMode s' = editMode s" "template s' = template s"
    unfolding extends_def by blast
  from assms(2) obtain hs' fs' ms' where
    2: "handlers (eventBus s'') = handlers (eventBus s') @ hs'" "StateUpdater \<notin> set hs'"
       "configWatchers s'' = configWatchers s' @ fs'" "emitted (parent s'') = emitted (parent s') @ ms'"
       "model (parent s'') = model (parent s')" "editMode s'' = editMode s'" "template s'' = template s'"
    unfolding extends_def by blast
  have "handlers (eventBus s'') = handlers (eventBus s) @ (hs @ hs') \<and> StateUpdater \<notin> set (hs @ hs')"
    using 1 2 by simp
  moreover have "configWatchers s'' = configWatchers s @ (fs @ fs')"
    using 1 2 by simp
  moreover have "emitted (parent s'') = emitted (parent s) @ (ms @ ms')"
    using 1 2 by simp
  ultimately show ?thesis
    unfolding extends_def using 1 2 by (metis (no_types))
qed

lemma extends_config_update: "extends s (s\<lparr>config := c\<rparr>)"
  by (simp add: extends_def)

lemma run_cmd_extends: "extends s (run_cmd c s)"
  by (cases c)
     (simp_all add: extends_def on_def onConfigUpdate_def setHeight_def setConfig_def
        setSchema_def setSavable_def setExternalId_def save_def emit_def pushHandler_def)

lemma run_cmd_config: "config (run_cmd c s) = config s"
  by (cases c)
     (simp_all add: on_def onConfigUpdate_def setHeight_def setConfig_def
        setSchema_def setSavable_def setExternalId_def save_def)

lemma fold_run_cmd_extends: "extends s (fold run_cmd cs s)"
proof (induction cs arbitrary: s)
  case Nil
  show ?case by (simp add: extends_refl)
next
  case (Cons c cs)
  have "extends s (run_cmd c s)" by (rule run_cmd_extends)
  moreover have "extends (run_cmd c s) (fold run_cmd cs (run_cmd c s))" by (rule Cons.IH)
  ultimately show ?case by (simp add: extends_trans)
qed

lemma fold_run_cmd_config: "config (fold run_cmd cs s) = config s"
  by (induction cs arbitrary: s) (simp_all add: run_cmd_config)

lemma call_fn_extends: "extends (sdk w) (sdk (call_fn f a w))"
  by (simp add: call_fn_def fold_run_cmd_extends)

lemma call_fn_config: "config (sdk (call_fn f a w)) = config (sdk w)"
  by (simp add: call_fn_def fold_run_cmd_config)

lemma call_fn_trace: "trace (call_fn f a w) = trace w"
  by (simp add: call_fn_def)

lemma call_fn_document: "document (call_fn f a w) = document w"
  by (simp add: call_fn_def)

lemma call_fn_observers: "observers (call_fn f a w) = observers w"
  by (simp add: call_fn_def)

subsection \<open>One call of a watcher, of the state updater, of a closure of on\<close>

lemma call_watcher_extends: "extends (sdk w) (sdk (call_watcher f w))"
  using call_fn_extends [of "record_call (WatcherCall f (config (sdk w)) (getConfig (sdk w))) w"]
  by (simp add: call_watcher_def record_call_def)

lemma call_watcher_config: "config (sdk (call_watcher f w)) = config (sdk w)"
  by (simp add: call_watcher_def call_fn_config record_call_def)

lemma call_watcher_trace:
  "trace (call_watcher f w) = trace w @ [WatcherCall f (config (sdk w)) (config (sdk w))]"
  by (simp add: call_watcher_def call_fn_trace record_call_def getConfig_def)

lemma call_watcher_env:
  "document (call_watcher f w) = document w" "observers (call_watcher f w) = observers w"
  by (simp_all add: call_watcher_def call_fn_document call_fn_observers record_call_def)

lemma fold_call_watcher_extends: "extends (sdk w) (sdk (fold call_watcher fs w))"
proof (induction fs arbitrary: w)
  case Nil
  show ?case by (simp add: extends_refl)
next
  case (Cons f fs)
  show ?case
    using extends_trans [OF call_watcher_extends [of w f] Cons.IH [of "call_watcher f w"]]
    by simp
qed


lemma fold_call_watcher_trace:
  "trace (fold call_watcher fs w) =
     trace w @ map (\<lambda>f. WatcherCall f (config (sdk w)) (config (sdk w))) fs"
  by (induction fs arbitrary: w) (simp_all add: call_watcher_trace call_watcher_config)

lemma fold_call_watcher_env:
  "document (fold call_watcher fs w) = document w"
  "observers (fold call_watcher fs w) = observers w"
  by (induction fs arbitrary: w) (simp_all add: call_watcher_env)

lemma call_watcher_appends: "\<exists>ex. configWatchers (sdk (call_watcher f w)) = configWatchers (sdk w) @ ex"
  using call_watcher_extends [of w f] unfolding extends_def by blast

lemma forEach_watchers:
  "forEach (\<lambda>w. configWatchers (sdk w)) call_watcher w = fold call_watcher (configWatchers (sdk w)) w"
  by (rule forEach_fold) (rule call_watcher_appends)

lemma state_updater_other: "event e \<noteq> ''set-config'' \<Longrightarrow> state_updater e w = w"
  by (simp add: state_updater_def)

lemma state_updater_set_config:
  "event e = ''set-config'' \<Longrightarrow>
   state_updater e w =
     fold call_watcher (configWatchers (sdk w)) (w\<lparr>sdk := (sdk w)\<lparr>config := payload e\<rparr>\<rparr>)"
  by (simp add: state_updater_def forEach_watchers)

lemma state_updater_extends: "extends (sdk w) (sdk (state_updater e w))"
proof (cases "event e = ''set-config''")
  case True
  have "extends (sdk w) ((sdk w)\<lparr>config := payload e\<rparr>)" by (rule extends_config_update)
  moreover have "extends ((sdk w)\<lparr>config := payload e\<rparr>) (sdk (state_updater e w))"
    using fold_call_watcher_extends [of "w\<lparr>sdk := (sdk w)\<lparr>config := payload e\<rparr>\<rparr>"]
    by (simp add: state_updater_set_config [OF True])
  ultimately show ?thesis by (rule extends_trans)
next
  case False
  then show ?thesis by (simp add: state_updater_other extends_refl)
qed


lemma state_updater_trace:
  "trace (state_updater e w) =
     trace w @ (if event e = ''set-config''
                then map (\<lambda>f. WatcherCall f (payload e) (payload e)) (configWatchers (sdk w))
                else [])"
  by (simp add: state_updater_set_config state_updater_other fold_call_watcher_trace)

lemma state_updater_env:
  "document (state_updater e w) = document w" "observers (state_updater e w) = observers w"
  by (simp_all add: state_updater_def forEach_watchers fold_call_watcher_env)

lemma on_closure_eq:
  "on_closure ev k f e w =
     (if on_matches ev k e
      then call_fn f NoArgs (record_call (CallbackCall f (getConfig (sdk w))) w)
      else w)"
  by (auto simp: on_closure_def on_matches_def split: option.splits)

lemma on_closure_extends: "extends (sdk w) (sdk (on_closure ev k f e w))"
  using call_fn_extends [of "record_call (CallbackCall f (getConfig (sdk w))) w" f NoArgs]
  by (simp add: on_closure_eq record_call_def extends_refl)


lemma on_closure_trace:
  "trace (on_closure ev k f e w) =
     trace w @ (if on_matches ev k e then [CallbackCall f (config (sdk w))] else [])"
  by (simp add: on_closure_eq call_fn_trace record_call_def getConfig_def)

lemma on_closure_env:
  "document (on_closure ev k f e w) = document w" "observers (on_closure ev k f e w) = observers w"
  by (simp_all add: on_closure_eq call_fn_document call_fn_observers record_call_def)

subsection \<open>One call of a handler by the bus, and a whole dispatch\<close>

lemma call_handler_trace:
  "trace (call_handler e h w) = trace w @ HandlerCall h e (config (sdk w)) # effect_trace h e (sdk w)"
  by (cases h)
     (simp_all add: call_handler_def record_call_def getConfig_def state_updater_trace
        on_closure_trace call_fn_trace)

lemma call_handler_extends: "extends (sdk w) (sdk (call_handler e h w))"
proof (cases h)
  case StateUpdater
  then show ?thesis
    using state_updater_extends [of "record_call (HandlerCall h e (getConfig (sdk w))) w" e]
    by (simp add: call_handler_def record_call_def)
next
  case (OnClosure ev k f)
  then show ?thesis
    using on_closure_extends [of "record_call (HandlerCall h e (getConfig (sdk w))) w" ev k f e]
    by (simp add: call_handler_def record_call_def)
next
  case (UserHandler f)
  then show ?thesis
    using call_fn_extends [of "record_call (HandlerCall h e (getConfig (sdk w))) w" f "EventArg e"]
    by (simp add: call_handler_def record_call_def)
qed


lemma call_handler_env:
  "document (call_handler e h w) = document w" "observers (call_handler e h w) = observers w"
  by (cases h; simp add: call_handler_def record_call_def state_updater_env on_closure_env
        call_fn_document call_fn_observers)+

lemma call_handler_appends:
  "\<exists>ex. handlers (eventBus (sdk (call_handler e h w))) = handlers (eventBus (sdk w)) @ ex"
  using call_handler_extends [of w e h] unfolding extends_def by blast

lemma trigger_fold: "trigger e w = fold (call_handler e) (handlers (eventBus (sdk w))) w"
  unfolding trigger_def by (rule forEach_fold) (rule call_handler_appends)

lemma fold_call_handler_extends: "extends (sdk w) (sdk (fold (call_handler e) hs w))"
proof (induction hs arbitrary: w)
  case Nil
  show ?case by (simp add: extends_refl)
next
  case (Cons h hs)
  show ?case
    using extends_trans [OF call_handler_extends [of w e h] Cons.IH [of "call_handler e h w"]]
    by simp
qed

lemma fold_call_handler_env:
  "document (fold (call_handler e) hs w) = document w"
  "observers (fold (call_handler e) hs w) = observers w"
  by (induction hs arbitrary: w) (simp_all add: call_handler_env)

lemma handler_calls_append: "handler_calls (xs @ ys) = handler_calls xs @ handler_calls ys"
  by (induction xs rule: handler_calls.induct) simp_all


lemma callback_calls_append: "callback_calls (xs @ ys) = callback_calls xs @ callback_calls ys"
  by (induction xs rule: callback_calls.induct) simp_all

lemma handler_calls_watchers: "handler_calls (map (\<lambda>f. WatcherCall f v c) fs) = []"
  by (induction fs) simp_all


lemma handler_calls_effect: "handler_calls (effect_trace h e s) = []"
  by (cases h) (simp_all add: handler_calls_watchers)

lemma fold_call_handler_calls:
  "handler_calls (trace (fold (call_handler e) hs w)) =
     handler_calls (trace w) @ map (\<lambda>h. (h, e)) hs"
  by (induction hs arbitrary: w)
     (simp_all add: call_handler_trace handler_calls_append handler_calls_effect)

lemma trigger_extends: "extends (sdk w) (sdk (trigger e w))"
  by (simp add: trigger_fold fold_call_handler_extends)

subsection \<open>Dispatch when the list holds no further state updater\<close>

lemma callback_calls_watchers: "callback_calls (map (\<lambda>f. WatcherCall f v c) fs) = []"
  by (induction fs) simp_all

lemma callback_calls_effect: "callback_calls (effect_trace h e s) = fired e h"
  by (cases h) (simp_all add: callback_calls_watchers)

lemma fold_call_handler_callbacks:
  "callback_calls (trace (fold (call_handler e) hs w)) =
     callback_calls (trace w) @ concat (map (fired e) hs)"
  by (induction hs arbitrary: w)
     (simp_all add: call_handler_trace callback_calls_append callback_calls_effect)





subsection \<open>The steps of a session\<close>


lemma setHeight_extends: "extends s (setHeight h s)"
  by (simp add: extends_def setHeight_def emit_def)

lemma on_resize_extends: "extends (sdk w) (sdk (on_resize cb w))"
  by (simp add: on_resize_def extends_refl setHeight_extends split: sum.splits)

lemma notify_extends: "extends (sdk w) (sdk (notify ob w))"
  by (simp add: notify_def extends_refl on_resize_extends)

lemma fold_notify_extends: "extends (sdk w) (sdk (fold notify obs w))"
proof (induction obs arbitrary: w)
  case Nil
  show ?case by (simp add: extends_refl)
next
  case (Cons ob obs)
  show ?case
    using extends_trans [OF notify_extends [of w ob] Cons.IH [of "notify ob w"]] by simp
qed

lemma body_resized_extends: "extends (sdk w) (sdk (body_resized rect w))"
proof (cases "\<exists>old. document w = Document (Some old)")
  case True
  then show ?thesis
    using fold_notify_extends [of "w\<lparr>document := Document (Some rect)\<rparr>" "observers w"]
    by (auto simp: body_resized_def)
next
  case False
  then have "body_resized rect w = w"
    by (auto simp: body_resized_def split: document_binding.splits option.splits)
  then show ?thesis by (simp add: extends_refl)
qed

lemma enableAutoResize_extends: "extends (sdk w) (sdk (snd (enableAutoResize w)))"
  by (auto simp: enableAutoResize_def calculateHeight_def Let_def extends_refl setHeight_extends
      split: document_binding.splits option.splits)

lemma enableAutoResize_index_extends: "extends (sdk w) (sdk (snd (enableAutoResize_index w)))"
  by (auto simp: enableAutoResize_index_def calculateHeight_index_def Let_def extends_refl
      setHeight_extends split: document_binding.splits option.splits)

lemma setConfig_index_extends: "extends s (setConfig_index c s)"
  by (simp add: extends_def setConfig_index_def emit_def)

lemma run_teardown_sdk: "sdk (run_teardown t w) = sdk w"
  by (cases t) (simp add: run_teardown_def)

lemma exec_extends: "extends (sdk w) (sdk (exec st w))"
  by (cases st)
     (simp_all add: run_cmd_extends trigger_extends enableAutoResize_extends
        enableAutoResize_index_extends setConfig_index_extends body_resized_extends
        run_teardown_sdk extends_refl)

lemma run_extends: "extends (sdk w) (sdk (run steps w))"
  unfolding run_def
proof (induction steps arbitrary: w)
  case Nil
  show ?case by (simp add: extends_refl)
next
  case (Cons st steps)
  show ?case
    using extends_trans [OF exec_extends [of w st] Cons.IH [of "exec st w"]] by simp
qed



subsection \<open>Registrations\<close>

lemma run_cmd_handlers: "handlers (eventBus (run_cmd c s)) = handlers (eventBus s) @ pushed_by c"
  by (cases c)
     (simp_all add: on_def onConfigUpdate_def setHeight_def setConfig_def setSchema_def
        setSavable_def setExternalId_def save_def pushHandler_def)

lemma fold_run_cmd_handlers:
  "handlers (eventBus (fold run_cmd cs s)) = handlers (eventBus s) @ concat (map pushed_by cs)"
  by (induction cs arbitrary: s) (simp_all add: run_cmd_handlers)

lemma fold_pushHandler: "handlers (fold pushHandler hs bus) = handlers bus @ hs"
  by (induction hs arbitrary: bus) (simp_all add: pushHandler_def)

lemma handlers_registered: "handlers (fold pushHandler hs EventBus_new) = hs"
  by (simp add: fold_pushHandler EventBus_new_def)

lemma bus_of_handlers: "handlers (eventBus (sdk (bus_of hs))) = hs"
  by (simp add: bus_of_def handlers_registered)

lemma bus_of_trace: "trace (bus_of hs) = []"
  by (simp add: bus_of_def)

lemma trigger_registers:
  "handlers (eventBus (sdk (trigger e (bus_of [UserHandler (registers 5 (idle 6))])))) =
     [UserHandler (registers 5 (idle 6)), UserHandler (idle 6)]"
  by (simp add: trigger_fold bus_of_def EventBus_new_def pushHandler_def call_handler_def
      call_fn_def record_call_def registers_def)

lemma trigger_callbacks:
  "callback_calls (trace (trigger e w)) =
     callback_calls (trace w) @ concat (map (fired e) (handlers (eventBus (sdk w))))"
  by (simp add: trigger_fold fold_call_handler_callbacks)

lemma fired_on_closure:
  "fired e (OnClosure ev k f) = (if event e = ev \<and> field e \<noteq> None \<and> key (the (field e)) = k then [f] else [])"
  by (simp add: on_matches_def)

lemma clicks_session_eq:
  "clicks_session = (createSDK True model_a1_b2 Falsy)
     \<lparr>sdk := on ''click'' ''my_button'' (idle 7) (sdk (createSDK True model_a1_b2 Falsy))\<rparr>"
  by (simp add: clicks_session_def run_def)

lemma fresh_session_callbacks: "callback_calls (trace (trigger e (createSDK savable m d))) = []"
  by (simp add: trigger_callbacks createSDK_def ConfigSDK_new_def pushHandler_def EventBus_new_def)

subsection \<open>Reports of height\<close>

lemma setHeight_emitted:
  "emitted (parent (setHeight h s)) = emitted (parent s) @ [(''set-height'', JNumberToString h)]"
  by (simp add: setHeight_def emit_def)

lemma on_resize_emitted:
  "document w = Document (Some rect) \<Longrightarrow>
   emitted (parent (sdk (on_resize cb w))) =
     emitted (parent (sdk w)) @ [(''set-height'', JNumberToString (reported_height cb rect))]"
  by (cases cb)
     (simp_all add: on_resize_def calculateHeight_def calculateHeight_index_def
        setHeight_emitted reported_height_def)

lemma on_resize_document: "document (on_resize cb w) = document w"
  by (simp add: on_resize_def split: sum.splits)

lemma notify_document: "document (notify ob w) = document w"
  by (simp add: notify_def on_resize_document)

lemma fold_notify_emitted:
  "document w = Document (Some rect) \<Longrightarrow>
   emitted (parent (sdk (fold notify obs w))) =
     emitted (parent (sdk w)) @
     map (\<lambda>ob. (''set-height'', JNumberToString (reported_height (callback ob) rect)))
       (filter observing obs)"
proof (induction obs arbitrary: w)
  case Nil
  show ?case by simp
next
  case (Cons ob obs)
  have doc: "document (notify ob w) = Document (Some rect)"
    using Cons.prems by (simp add: notify_document)
  show ?case
    using Cons.IH [OF doc] Cons.prems
    by (simp add: notify_def on_resize_emitted)
qed

lemma body_resized_emitted:
  "document w = Document (Some old) \<Longrightarrow>
   emitted (parent (sdk (body_resized rect w))) =
     emitted (parent (sdk w)) @
     map (\<lambda>ob. (''set-height'', JNumberToString (reported_height (callback ob) rect)))
       (filter observing (observers w))"
  using fold_notify_emitted [of "w\<lparr>document := Document (Some rect)\<rparr>" rect "observers w"]
  by (simp add: body_resized_def)

lemma page_facts:
  "document page = Document (Some \<lparr>rect_y = 8, rect_height = 100\<rparr>)"
  "emitted (parent (sdk page)) = []" "observers page = []"
  by (simp_all add: page_def createSDK_def ConfigSDK_new_def)

lemma extends_editMode: "extends s s' \<Longrightarrow> editMode s' = editMode s"
  by (simp add: extends_def)




section \<open>The properties of the specification\<close>





text \<open>
  C3. A handler pushed while \<^verbatim>\<open>trigger\<close> runs goes to the end of the list, behind the
  handlers that were there when the call began; the call invokes those only, so it does
  not invoke the new one; the next call of \<^verbatim>\<open>trigger\<close> invokes the old ones and then the new
  ones.
\<close>

theorem handlers_pushed_during_trigger_wait_for_next_trigger:
  "handlers (eventBus (sdk w)) = hs \<Longrightarrow>
   \<exists>added.
     handlers (eventBus (sdk (trigger e w))) = hs @ added \<and>
     handler_calls (trace (trigger e w)) = handler_calls (trace w) @ map (\<lambda>h. (h, e)) hs \<and>
     handler_calls (trace (trigger e' (trigger e w))) =
       handler_calls (trace w) @ map (\<lambda>h. (h, e)) hs @ map (\<lambda>h. (h, e')) (hs @ added) \<and>
     handlers (eventBus (sdk (call_handler e (UserHandler f) v))) =
       handlers (eventBus (sdk v)) @ concat (map pushed_by (body f (EventArg e) (snapshot_of (sdk v))))"
proof -
  assume hs: "handlers (eventBus (sdk w)) = hs"
  obtain added where added: "handlers (eventBus (sdk (trigger e w))) = hs @ added"
    using trigger_extends [of w e] hs unfolding extends_def by auto
  have 1: "handler_calls (trace (trigger e w)) = handler_calls (trace w) @ map (\<lambda>h. (h, e)) hs"
    by (simp add: trigger_fold fold_call_handler_calls hs)
  have "handler_calls (trace (trigger e' (trigger e w))) =
      handler_calls (trace (trigger e w)) @ map (\<lambda>h. (h, e')) (hs @ added)"
    using added by (simp add: trigger_fold [of e' "trigger e w"] fold_call_handler_calls)
  moreover have "handlers (eventBus (sdk (call_handler e (UserHandler f) v))) =
      handlers (eventBus (sdk v)) @ concat (map pushed_by (body f (EventArg e) (snapshot_of (sdk v))))"
    by (simp add: call_handler_def call_fn_def record_call_def fold_run_cmd_handlers)
  ultimately show ?thesis using 1 added by simp
qed

theorem handlers_pushed_during_trigger_wait_for_next_trigger_witness:
  "handlers (eventBus (sdk (trigger set_config_a1 (bus_of [UserHandler (registers 5 (idle 6))])))) =
     [UserHandler (registers 5 (idle 6)), UserHandler (idle 6)] \<and>
   handler_calls (trace (trigger set_config_a1 (bus_of [UserHandler (registers 5 (idle 6))]))) =
     [(UserHandler (registers 5 (idle 6)), set_config_a1)] \<and>
   handler_calls (trace (trigger click_my_button
       (trigger set_config_a1 (bus_of [UserHandler (registers 5 (idle 6))])))) =
     [(UserHandler (registers 5 (idle 6)), set_config_a1),
      (UserHandler (registers 5 (idle 6)), click_my_button),
      (UserHandler (idle 6), click_my_button)]"
  using handlers_pushed_during_trigger_wait_for_next_trigger
    [of "bus_of [UserHandler (registers 5 (idle 6))]" "[UserHandler (registers 5 (idle 6))]"
        set_config_a1 click_my_button "idle 6" "bus_of []", OF bus_of_handlers]
  by (auto simp: trigger_registers bus_of_trace)

text \<open>
  C4. After \<^verbatim>\<open>on(ev, k, f)\<close> the bus has one more handler, the last. The dispatch of an
  event calls the functions given to \<^verbatim>\<open>on\<close> that it would have called without this
  registration and then, if and only if the name of the event is \<open>ev\<close>, its field is not
  null and the key of its field is \<open>k\<close>, it calls \<open>f\<close> once more, with no argument.
\<close>

theorem on_calls_handler_iff_name_and_key_match:
  "callback_calls (trace (trigger e (w\<lparr>sdk := on ev k f (sdk w)\<rparr>))) =
     callback_calls (trace (trigger e w)) @
     (if event e = ev \<and> field e \<noteq> None \<and> key (the (field e)) = k then [f] else []) \<and>
   handlers (eventBus (on ev k f s)) = handlers (eventBus s) @ [OnClosure ev k f] \<and>
   apply_handler (OnClosure ev k f) e v =
     (if event e = ev \<and> field e \<noteq> None \<and> key (the (field e)) = k
      then call_fn f NoArgs (record_call (CallbackCall f (getConfig (sdk v))) v)
      else v)"
proof -
  let ?w' = "w\<lparr>sdk := on ev k f (sdk w)\<rparr>"
  have hs: "handlers (eventBus (sdk ?w')) = handlers (eventBus (sdk w)) @ [OnClosure ev k f]"
    by (simp add: on_def pushHandler_def)
  have tr: "trace ?w' = trace w" by simp
  have 1: "callback_calls (trace (trigger e ?w')) =
      callback_calls (trace (trigger e w)) @
      (if event e = ev \<and> field e \<noteq> None \<and> key (the (field e)) = k then [f] else [])"
    unfolding trigger_callbacks [of e ?w'] trigger_callbacks [of e w] hs tr
    by (simp add: fired_on_closure del: fired.simps)
  have 2: "handlers (eventBus (on ev k f s)) = handlers (eventBus s) @ [OnClosure ev k f]"
    by (simp add: on_def pushHandler_def)
  have 3: "apply_handler (OnClosure ev k f) e v =
      (if event e = ev \<and> field e \<noteq> None \<and> key (the (field e)) = k
       then call_fn f NoArgs (record_call (CallbackCall f (getConfig (sdk v))) v)
       else v)"
    by (simp add: on_closure_eq on_matches_def)
  from 1 2 3 show ?thesis by blast
qed

theorem on_calls_handler_iff_name_and_key_match_witness:
  "callback_calls (trace (trigger click_my_button clicks_session)) = [idle 7] \<and>
   callback_calls (trace (trigger click_other clicks_session)) = [] \<and>
   callback_calls (trace (trigger other_my_button clicks_session)) = [] \<and>
   callback_calls (trace (trigger click_null clicks_session)) = []"
  using on_calls_handler_iff_name_and_key_match
          [where e = click_my_button and w = "createSDK True model_a1_b2 Falsy" and ev = "''click''"
             and k = "''my_button''" and f = "idle 7"]
        on_calls_handler_iff_name_and_key_match
          [where e = click_other and w = "createSDK True model_a1_b2 Falsy" and ev = "''click''"
             and k = "''my_button''" and f = "idle 7"]
        on_calls_handler_iff_name_and_key_match
          [where e = other_my_button and w = "createSDK True model_a1_b2 Falsy" and ev = "''click''"
             and k = "''my_button''" and f = "idle 7"]
        on_calls_handler_iff_name_and_key_match
          [where e = click_null and w = "createSDK True model_a1_b2 Falsy" and ev = "''click''"
             and k = "''my_button''" and f = "idle 7"]
  by (simp add: clicks_session_eq fresh_session_callbacks click_my_button_def click_other_def
      other_my_button_def click_null_def)

text \<open>
  C5. \<^verbatim>\<open>save()\<close> of a session that is not in edit mode returns with the session as it was
  and sends nothing; in edit mode it sends one message, named \<^verbatim>\<open>save\<close>, whose payload is
  \<^verbatim>\<open>undefined\<close>, and changes nothing else.
\<close>

theorem save_only_in_edit_mode:
  "(\<not> editMode s \<longrightarrow> save s = s) \<and>
   (editMode s \<longrightarrow>
      save s = s\<lparr>parent := (parent s)\<lparr>emitted := emitted (parent s) @ [(''save'', JUndefined)]\<rparr>\<rparr>)"
  by (simp add: save_def emit_def)

theorem save_only_in_edit_mode_witness:
  "\<not> editMode viewing \<and> emitted (parent (save viewing)) = [] \<and> save viewing = viewing \<and>
   editMode editing \<and> emitted (parent (save editing)) = [(''save'', JUndefined)]"
  using save_only_in_edit_mode [of viewing] save_only_in_edit_mode [of editing]
  by (simp add: viewing_def editing_def createSDK_def ConfigSDK_new_def model_a1_b2_def)

text \<open>
  C6. \<^verbatim>\<open>setConfig(p)\<close> sends one message that carries \<open>p\<close>, named \<^verbatim>\<open>update-config\<close> (named
  \<^verbatim>\<open>save\<close> in the earlier revision \<^verbatim>\<open>src/index.ts\<close>), and changes nothing else in the
  session: \<^verbatim>\<open>getConfig()\<close> returns after the call what it returned before.
\<close>

theorem setConfig_sends_request_and_keeps_config:
  "setConfig p s = s\<lparr>parent := (parent s)\<lparr>emitted := emitted (parent s) @ [(''update-config'', p)]\<rparr>\<rparr> \<and>
   getConfig (setConfig p s) = getConfig s \<and>
   setConfig_index p s = s\<lparr>parent := (parent s)\<lparr>emitted := emitted (parent s) @ [(''save'', p)]\<rparr>\<rparr> \<and>
   getConfig (setConfig_index p s) = getConfig s"
  by (simp add: setConfig_def setConfig_index_def emit_def getConfig_def)

theorem setConfig_sends_request_and_keeps_config_witness:
  "emitted (parent (setConfig cfg_a1 editing)) = [(''update-config'', cfg_a1)] \<and>
   getConfig (setConfig cfg_a1 editing) = cfg_a1_b2 \<and>
   emitted (parent (setConfig_index cfg_a1 editing)) = [(''save'', cfg_a1)] \<and>
   getConfig (setConfig_index cfg_a1 editing) = cfg_a1_b2"
  using setConfig_sends_request_and_keeps_config [of cfg_a1 editing]
  by (simp add: editing_def createSDK_def ConfigSDK_new_def model_a1_b2_def getConfig_def)

text \<open>
  What \<^verbatim>\<open>enableAutoResize()\<close> does where there is no document or no body: it throws and
  leaves everything as it was, so no observer is made and no message is sent. The error
  is the one the function makes itself where \<^verbatim>\<open>document\<close> is null or undefined or has no
  body; where the global \<^verbatim>\<open>document\<close> is undeclared, the test \<^verbatim>\<open>!document\<close> throws a
  ReferenceError first. The earlier revision does the same.
\<close>

lemma enableAutoResize_without_body:
  "document w = Undeclared \<or> document w = Falsy \<or> document w = Document None \<Longrightarrow>
   enableAutoResize w =
     (Inl (if document w = Undeclared then ReferenceError ''document is not defined''
           else Error auto_resize_message), w) \<and>
   observers (snd (enableAutoResize w)) = observers w \<and>
   emitted (parent (sdk (snd (enableAutoResize w)))) = emitted (parent (sdk w)) \<and>
   enableAutoResize_index w = enableAutoResize w"
  by (auto simp: enableAutoResize_def enableAutoResize_index_def)

text \<open>
  C7. In a session whose global \<^verbatim>\<open>document\<close> is undeclared, \<^verbatim>\<open>enableAutoResize()\<close> throws
  before it makes an observer or sends a message, but what it throws is the
  ReferenceError of the test \<^verbatim>\<open>!document\<close>, not the error the function makes for a
  missing document, in both revisions. Where the document is null or has no body it
  throws its own error.
\<close>

theorem enableAutoResize_undeclared_document_throws_ReferenceError:
  "document no_document = Undeclared \<and>
   enableAutoResize no_document = (Inl (ReferenceError ''document is not defined''), no_document) \<and>
   fst (enableAutoResize no_document) \<noteq> Inl (Error auto_resize_message) \<and>
   fst (enableAutoResize_index no_document) \<noteq> Inl (Error auto_resize_message) \<and>
   observers (snd (enableAutoResize no_document)) = [] \<and>
   emitted (parent (sdk (snd (enableAutoResize no_document)))) = [] \<and>
   enableAutoResize null_document = (Inl (Error auto_resize_message), null_document) \<and>
   enableAutoResize no_body = (Inl (Error auto_resize_message), no_body)"
  by (simp add: enableAutoResize_def enableAutoResize_index_def no_document_def
      null_document_def no_body_def createSDK_def ConfigSDK_new_def)

text \<open>
  C8, for each of the two revisions. With a body whose box is \<open>rect\<close>, \<^verbatim>\<open>enableAutoResize()\<close>
  makes one observer and reports at once the height \<open>2 * y + height\<close> of \<open>rect\<close>; when the
  box of the body becomes \<open>rect'\<close>, every observer it made that is still connected
  reports \<open>2 * y + height\<close> of \<open>rect'\<close>. The earlier revision, \<^verbatim>\<open>src/index.ts\<close>, reports
  \<open>y + height\<close> in both places: there the height is not the doubled one.
\<close>

theorem enableAutoResize_reports_height:
  "document w = Document (Some rect) \<Longrightarrow>
   emitted (parent (sdk (snd (enableAutoResize w)))) =
     emitted (parent (sdk w)) @ [(''set-height'', JNumberToString (2 * rect_y rect + rect_height rect))] \<and>
   observers (snd (enableAutoResize w)) = observers w @ [\<lparr>callback = AutoResize, observing = True\<rparr>] \<and>
   emitted (parent (sdk (snd (enableAutoResize_index w)))) =
     emitted (parent (sdk w)) @ [(''set-height'', JNumberToString (rect_y rect + rect_height rect))] \<and>
   observers (snd (enableAutoResize_index w)) =
     observers w @ [\<lparr>callback = AutoResize_index, observing = True\<rparr>] \<and>
   emitted (parent (sdk (body_resized rect' w))) =
     emitted (parent (sdk w)) @
     map (\<lambda>ob. (''set-height'',
                JNumberToString
                  (case callback ob of
                     AutoResize \<Rightarrow> 2 * rect_y rect' + rect_height rect'
                   | AutoResize_index \<Rightarrow> rect_y rect' + rect_height rect')))
       (filter observing (observers w))"
proof -
  assume doc: "document w = Document (Some rect)"
  have 1: "emitted (parent (sdk (snd (enableAutoResize w)))) =
      emitted (parent (sdk w)) @ [(''set-height'', JNumberToString (2 * rect_y rect + rect_height rect))]"
    using doc by (simp add: enableAutoResize_def calculateHeight_def Let_def setHeight_emitted)
  have 2: "observers (snd (enableAutoResize w)) = observers w @ [\<lparr>callback = AutoResize, observing = True\<rparr>]"
    using doc by (simp add: enableAutoResize_def calculateHeight_def Let_def)
  have 3: "emitted (parent (sdk (snd (enableAutoResize_index w)))) =
      emitted (parent (sdk w)) @ [(''set-height'', JNumberToString (rect_y rect + rect_height rect))]"
    using doc by (simp add: enableAutoResize_index_def calculateHeight_index_def Let_def setHeight_emitted)
  have 4: "observers (snd (enableAutoResize_index w)) =
      observers w @ [\<lparr>callback = AutoResize_index, observing = True\<rparr>]"
    using doc by (simp add: enableAutoResize_index_def calculateHeight_index_def Let_def)
  have 5: "emitted (parent (sdk (body_resized rect' w))) =
      emitted (parent (sdk w)) @
      map (\<lambda>ob. (''set-height'',
                 JNumberToString
                   (case callback ob of
                      AutoResize \<Rightarrow> 2 * rect_y rect' + rect_height rect'
                    | AutoResize_index \<Rightarrow> rect_y rect' + rect_height rect')))
        (filter observing (observers w))"
    using body_resized_emitted [OF doc, of rect'] by (simp add: reported_height_def)
  from 1 2 3 4 5 show ?thesis by blast
qed

theorem enableAutoResize_reports_height_witness:
  "emitted (parent (sdk (snd (enableAutoResize page)))) = [(''set-height'', JNumberToString 116)] \<and>
   emitted (parent (sdk (body_resized \<lparr>rect_y = 10, rect_height = 300\<rparr> (snd (enableAutoResize page))))) =
     [(''set-height'', JNumberToString 116), (''set-height'', JNumberToString 320)]"
proof -
  let ?w = "snd (enableAutoResize page)"
  have doc: "document ?w = Document (Some \<lparr>rect_y = 8, rect_height = 100\<rparr>)"
    by (simp add: enableAutoResize_def calculateHeight_def Let_def page_facts)
  show ?thesis
    using enableAutoResize_reports_height [OF page_facts(1)]
          enableAutoResize_reports_height [OF doc, of "\<lparr>rect_y = 10, rect_height = 300\<rparr>"]
    by (simp add: page_facts)
qed

text \<open>
  C8 at the earlier revision, for a body whose box has \<open>y = 8\<close> and \<open>height = 100\<close>: the
  height reported is 108, which is not \<open>2 * 8 + 100\<close>.
\<close>

theorem enableAutoResize_index_reports_undoubled_height:
  "emitted (parent (sdk (snd (enableAutoResize_index page)))) = [(''set-height'', JNumberToString 108)] \<and>
   JNumberToString 108 \<noteq> JNumberToString (2 * 8 + 100)"
  by (simp add: enableAutoResize_index_def calculateHeight_index_def Let_def page_facts setHeight_emitted)

text \<open>
  C9. The constructor sets \<^verbatim>\<open>editMode\<close> from the model of the dashboard, and neither an
  operation of the session, nor the dispatch of an event, nor a report of the resize
  observer, nor any sequence of these, changes it.
\<close>

theorem editMode_set_once:
  "editMode (ConfigSDK_new api bus) = model_editMode (model api) \<and>
   editMode (sdk (createSDK savable m d)) = model_editMode m \<and>
   editMode (on ev k f s) = editMode s \<and>
   editMode (onConfigUpdate f s) = editMode s \<and>
   editMode (setHeight h s) = editMode s \<and>
   editMode (setConfig c s) = editMode s \<and>
   editMode (setConfig_index c s) = editMode s \<and>
   editMode (setSchema sch s) = editMode s \<and>
   editMode (setSavable b s) = editMode s \<and>
   editMode (setExternalId i s) = editMode s \<and>
   editMode (save s) = editMode s \<and>
   editMode (sdk (snd (enableAutoResize w))) = editMode (sdk w) \<and>
   editMode (sdk (snd (enableAutoResize_index w))) = editMode (sdk w) \<and>
   editMode (sdk (trigger e w)) = editMode (sdk w) \<and>
   editMode (sdk (run steps w)) = editMode (sdk w)"
proof -
  have "editMode (sdk (snd (enableAutoResize w))) = editMode (sdk w)"
    by (rule extends_editMode) (rule enableAutoResize_extends)
  moreover have "editMode (sdk (snd (enableAutoResize_index w))) = editMode (sdk w)"
    by (rule extends_editMode) (rule enableAutoResize_index_extends)
  moreover have "editMode (sdk (trigger e w)) = editMode (sdk w)"
    by (rule extends_editMode) (rule trigger_extends)
  moreover have "editMode (sdk (run steps w)) = editMode (sdk w)"
    by (rule extends_editMode) (rule run_extends)
  ultimately show ?thesis
    by (simp add: ConfigSDK_new_def createSDK_def on_def onConfigUpdate_def setHeight_def
        setConfig_def setConfig_index_def setSchema_def setSavable_def setExternalId_def save_def)
qed

theorem editMode_set_once_witness:
  "editMode (sdk (createSDK True model_a1_b2 (Document (Some \<lparr>rect_y = 8, rect_height = 100\<rparr>)))) \<and>
   editMode (sdk (run busy_steps page))"
  using editMode_set_once [where savable = True and m = model_a1_b2
          and d = "Document (Some \<lparr>rect_y = 8, rect_height = 100\<rparr>)" and w = page
          and steps = busy_steps]
  by (simp add: page_def model_a1_b2_def)



end
